theory Spec2Isabelle
  imports Complex_Main
begin

section \<open>The one-shot utility function of SCML\<close>

text \<open>
  A shallow embedding of \<^verbatim>\<open>scml/oneshot/ufun.py\<close> (class \<^verbatim>\<open>OneShotUFun\<close>) and of
  \<^verbatim>\<open>DefaultOneShotAdapter.make_ufun\<close> in \<^verbatim>\<open>scml/oneshot/sysagents.py\<close>.

  Python integers are unbounded, so quantities and prices are \<open>int\<close>. The cost rates,
  annotated \<^verbatim>\<open>float\<close> in the source, are taken at integer values, as the properties
  below state them. The quotient of two Python integers (\<^verbatim>\<open>/\<close>) is the float
  nearest to their exact quotient, and an error when that float is out of range; the
  model keeps the range and returns the exact quotient, a \<open>rat\<close>, in place of the
  nearest float. Exceptions are values of \<open>py_error\<close>.
\<close>

subsection \<open>Data\<close>

datatype py_error = TypeError | ZeroDivisionError | OverflowError | AttributeError

text \<open>
  The facts of the agent-world interface that the two source files read
  (\<^verbatim>\<open>self.awi.my_output_product\<close>, \<^verbatim>\<open>self.awi.profile.cost\<close>, ...).
\<close>

record agent_world_interface =
  my_input_product :: int
  my_output_product :: int
  n_products :: int
  current_exogenous_input_quantity :: int
  current_exogenous_input_price :: int
  current_exogenous_output_quantity :: int
  current_exogenous_output_price :: int
  profile_cost :: int
  current_storage_cost :: int
  current_delivery_penalty :: int

text \<open>The owner of a utility function: an agent, reached only through its \<^verbatim>\<open>awi\<close>.\<close>

record one_shot_agent =
  awi :: agent_world_interface

text \<open>
  A contract as \<^verbatim>\<open>__call__\<close> reads it: \<^verbatim>\<open>c.signed_at\<close>, \<^verbatim>\<open>c.annotation["product"]\<close>,
  \<^verbatim>\<open>c.agreement[QUANTITY]\<close> and \<^verbatim>\<open>c.agreement[UNIT_PRICE]\<close>.
\<close>

record contract =
  signed_at :: int
  product :: int
  quantity :: int
  unit_price :: int

text \<open>
  The attributes that \<^verbatim>\<open>OneShotUFun.__init__\<close> stores: the field \<open>self_pin\<close> is
  \<^verbatim>\<open>self.pin\<close>, and so on.
\<close>

record OneShotUFun =
  self_owner :: one_shot_agent
  self_pin :: int
  self_pout :: int
  self_qin :: int
  self_qout :: int
  self_cost :: int
  self_storage_cost :: int
  self_delivery_penalty :: int

subsection \<open>The class methods\<close>

definition eval :: "int \<Rightarrow> int \<Rightarrow> int \<Rightarrow> int \<Rightarrow> int \<Rightarrow> int \<Rightarrow> int \<Rightarrow> int" where
  "eval qin qout pin pout production_cost storage_cost delivery_penalty =
     pin
     - pout
     - production_cost * min qin qout
     - storage_cost * max 0 (qin - qout)
     - delivery_penalty * max 0 (qout - qin)"

text \<open>
  The least magnitude that does not round to a finite double: the midpoint of the largest
  double, \<open>2 ^ 1024 - 2 ^ 971\<close>, and \<open>2 ^ 1024\<close>. Rounding to nearest, ties to even,
  takes the midpoint itself upwards.
\<close>

definition float_overflow :: rat where
  "float_overflow = 2 ^ 1024 - 2 ^ 970"

text \<open>
  Python's \<^verbatim>\<open>a / b\<close> on integers: it raises \<^verbatim>\<open>ZeroDivisionError\<close> when the divisor is
  zero and \<^verbatim>\<open>OverflowError\<close> ("integer division result too large for a float") when the
  quotient rounds to no finite double.
\<close>

definition truediv :: "int \<Rightarrow> int \<Rightarrow> py_error + rat" where
  "truediv a b =
     (if b = 0 then Inl ZeroDivisionError
      else if float_overflow \<le> \<bar>of_int a / of_int b\<bar> then Inl OverflowError
      else Inr (of_int a / of_int b))"

definition breach_level :: "int \<Rightarrow> int \<Rightarrow> py_error + rat" where
  "breach_level qin qout =
     (if max qin qout < 1 then Inr 0
      else truediv \<bar>qin - qout\<bar> (max qin qout))"

definition is_breach :: "int \<Rightarrow> int \<Rightarrow> bool" where
  "is_breach qin qout = (qin \<noteq> qout)"

subsection \<open>Calling the utility function on a list of contracts\<close>

text \<open>
  The state of one run of \<^verbatim>\<open>__call__\<close>: the object \<^verbatim>\<open>self\<close> and the four local
  accumulators \<^verbatim>\<open>qin, qout, pin, pout\<close>.
\<close>

record call_state =
  self :: OneShotUFun
  local_qin :: int
  local_qout :: int
  local_pin :: int
  local_pout :: int

text \<open>One iteration of the \<^verbatim>\<open>for c in contracts\<close> loop.\<close>

definition call_body :: "contract \<Rightarrow> call_state \<Rightarrow> call_state" where
  "call_body c s =
     (if signed_at c < 0 then s
      else
        let is_seller = (product c = my_output_product (awi (self_owner (self s))))
        in if is_seller
           then s\<lparr>local_qout := local_qout s + quantity c,
                  local_pout := local_pout s + unit_price c * quantity c\<rparr>
           else s\<lparr>local_qin := local_qin s + quantity c,
                  local_pin := local_pin s + unit_price c * quantity c\<rparr>)"

fun call_loop :: "contract list \<Rightarrow> call_state \<Rightarrow> call_state" where
  "call_loop [] s = s"
| "call_loop (c # contracts) s = call_loop contracts (call_body c s)"

text \<open>
  The whole method: the returned value, and the object as the method leaves it.
\<close>

definition call_run :: "OneShotUFun \<Rightarrow> contract list \<Rightarrow> int \<times> OneShotUFun" where
  "call_run u contracts =
     (let s = call_loop contracts
                \<lparr>self = u, local_qin = 0, local_qout = 0, local_pin = 0, local_pout = 0\<rparr>
      in (eval
            (self_qin (self s) + local_qin s)
            (self_qout (self s) + local_qout s)
            (self_pin (self s) + local_pin s)
            (self_pout (self s) + local_pout s)
            (self_cost (self s))
            (self_storage_cost (self s))
            (self_delivery_penalty (self s)),
          self s))"

definition call :: "OneShotUFun \<Rightarrow> contract list \<Rightarrow> int" where
  "call u contracts = fst (call_run u contracts)"

text \<open>
  The claim that reads the spec's words instead of the code: the input side sums the
  signed contracts whose product is the owner's input product.
\<close>

definition signed :: "contract list \<Rightarrow> contract list" where
  "signed contracts = filter (\<lambda>c. 0 \<le> signed_at c) contracts"

definition total_quantity :: "contract list \<Rightarrow> int" where
  "total_quantity contracts = sum_list (map quantity contracts)"

definition total_price :: "contract list \<Rightarrow> int" where
  "total_price contracts = sum_list (map (\<lambda>c. unit_price c * quantity c) contracts)"

definition call_spec :: "OneShotUFun \<Rightarrow> contract list \<Rightarrow> int" where
  "call_spec u contracts =
     (let outputs = filter (\<lambda>c. product c = my_output_product (awi (self_owner u)))
                      (signed contracts);
          inputs = filter (\<lambda>c. product c = my_input_product (awi (self_owner u)))
                      (signed contracts)
      in eval
           (self_qin u + total_quantity inputs)
           (self_qout u + total_quantity outputs)
           (self_pin u + total_price inputs)
           (self_pout u + total_price outputs)
           (self_cost u)
           (self_storage_cost u)
           (self_delivery_penalty u))"

subsection \<open>Constructing the utility function\<close>

text \<open>
  \<^verbatim>\<open>OneShotUFun.__init__\<close> takes \<^verbatim>\<open>owner\<close>, which has no default, and seven numeric
  parameters that default to zero; it takes no \<^verbatim>\<open>**kwargs\<close>. A call passes the owner
  (or omits it) and a list of numeric keyword arguments. Python binds the keywords to the
  parameters before the body runs and raises \<^verbatim>\<open>TypeError\<close> for a keyword that names no
  parameter and for a missing \<^verbatim>\<open>owner\<close>. A Python \<^verbatim>\<open>bool\<close> is an integer
  (\<^verbatim>\<open>True == 1\<close>), so a Boolean argument is passed as \<open>of_bool\<close>.
\<close>

definition init_defaults :: "(string \<times> int) list" where
  "init_defaults =
     [(''pin'', 0), (''qin'', 0), (''pout'', 0), (''qout'', 0),
      (''cost'', 0), (''storage_cost'', 0), (''delivery_penalty'', 0)]"

definition init_params :: "string list" where
  "init_params = ''owner'' # map fst init_defaults"

definition bound :: "(string \<times> int) list \<Rightarrow> string \<Rightarrow> int" where
  "bound kwargs name =
     (case map_of kwargs name of
        Some v \<Rightarrow> v
      | None \<Rightarrow> (case map_of init_defaults name of Some d \<Rightarrow> d | None \<Rightarrow> 0))"

definition OneShotUFun_init ::
  "one_shot_agent option \<Rightarrow> (string \<times> int) list \<Rightarrow> py_error + OneShotUFun" where
  "OneShotUFun_init owner kwargs =
     (if \<not> list_all (\<lambda>name. name \<in> set (map fst init_defaults)) (map fst kwargs)
      then Inl TypeError
      else case owner of
        None \<Rightarrow> Inl TypeError
      | Some ag \<Rightarrow>
          Inr \<lparr>self_owner = ag,
               self_pin = bound kwargs ''pin'',
               self_pout = bound kwargs ''pout'',
               self_qin = bound kwargs ''qin'',
               self_qout = bound kwargs ''qout'',
               self_cost = bound kwargs ''cost'',
               self_storage_cost = bound kwargs ''storage_cost'',
               self_delivery_penalty = bound kwargs ''delivery_penalty''\<rparr>)"

text \<open>
  The adapter as \<^verbatim>\<open>make_ufun\<close> reads it: its \<^verbatim>\<open>awi\<close>, which is \<^verbatim>\<open>None\<close> until the
  adapter has joined a world (\<^verbatim>\<open>to_dict\<close> tests \<^verbatim>\<open>if self.awi\<close>).
\<close>

record DefaultOneShotAdapter =
  adapter_awi :: "agent_world_interface option"

text \<open>An attribute of \<^verbatim>\<open>self.awi\<close>: reading it raises \<^verbatim>\<open>AttributeError\<close> on \<^verbatim>\<open>None\<close>.\<close>

definition awi_attribute ::
  "DefaultOneShotAdapter \<Rightarrow> (agent_world_interface \<Rightarrow> int) \<Rightarrow> py_error + int" where
  "awi_attribute adapter field =
     (case adapter_awi adapter of
        None \<Rightarrow> Inl AttributeError
      | Some w \<Rightarrow> Inr (field w))"

text \<open>
  The keyword arguments of a call are evaluated from left to right before the call is
  made; the first one that raises ends the evaluation.
\<close>

fun keyword_values :: "(string \<times> (py_error + int)) list \<Rightarrow> py_error + (string \<times> int) list" where
  "keyword_values [] = Inr []"
| "keyword_values ((name, v) # rest) =
     (case v of
        Inl e \<Rightarrow> Inl e
      | Inr x \<Rightarrow>
          (case keyword_values rest of
             Inl e \<Rightarrow> Inl e
           | Inr xs \<Rightarrow> Inr ((name, x) # xs)))"

text \<open>
  The adapter as the owner of a utility function, which reads it through its
  \<^verbatim>\<open>awi\<close> only.
\<close>

definition as_owner :: "DefaultOneShotAdapter \<Rightarrow> one_shot_agent option" where
  "as_owner adapter = map_option (\<lambda>w. \<lparr>awi = w\<rparr>) (adapter_awi adapter)"

text \<open>
  \<^verbatim>\<open>DefaultOneShotAdapter.make_ufun\<close>: the adapter passes itself as the owner. A
  conditional expression reads \<^verbatim>\<open>self.awi\<close> only when \<^verbatim>\<open>add_exogenous\<close> holds; the
  other arguments read it always. A result \<open>Inr u\<close> stands for the assignment
  \<^verbatim>\<open>self.ufun = u\<close> followed by \<^verbatim>\<open>return self.ufun\<close>.
\<close>

definition make_ufun :: "DefaultOneShotAdapter \<Rightarrow> bool \<Rightarrow> py_error + OneShotUFun" where
  "make_ufun adapter add_exogenous =
     (case keyword_values
        [(''qin'', if add_exogenous
                   then awi_attribute adapter current_exogenous_input_quantity else Inr 0),
         (''pin'', if add_exogenous
                   then awi_attribute adapter current_exogenous_input_price else Inr 0),
         (''qout'', if add_exogenous
                    then awi_attribute adapter current_exogenous_output_quantity else Inr 0),
         (''pout'', if add_exogenous
                    then awi_attribute adapter current_exogenous_output_price else Inr 0),
         (''production_cost'', awi_attribute adapter profile_cost),
         (''storage_cost'', awi_attribute adapter current_storage_cost),
         (''delivery_penalty'', awi_attribute adapter current_delivery_penalty),
         (''input_agent'', awi_attribute adapter (\<lambda>w. of_bool (my_input_product w = 0))),
         (''output_agent'',
            awi_attribute adapter (\<lambda>w. of_bool (my_output_product w = n_products w - 1)))]
      of
        Inl e \<Rightarrow> Inl e
      | Inr kwargs \<Rightarrow> OneShotUFun_init (as_owner adapter) kwargs)"

section \<open>Contract execution\<close>

text \<open>
  The world that executes contracts (\<^verbatim>\<open>scml/scml2020/world.py\<close>) is imported by
  \<^verbatim>\<open>scml/scml2020/__init__.py\<close> and run by the tests, but its source is not among the
  files at hand. The executor below follows the specification's section on the
  ContractExecutor, sentence by sentence.
\<close>

text \<open>
  Modelled from the spec: the counterparty of a contract (the world's agents are missing).
  It is an agent with a ledger, given by its position in the list of ledgers, or the
  implicit external party of an exogenous contract, which has no ledger.
\<close>

datatype party = Agent nat | External

text \<open>
  Modelled from the spec: the annotation of a contract as the executor reads it (the
  world's contract annotation is missing): the traded product and the two counterparties.
\<close>

record trade = contract +
  seller :: party
  buyer :: party

text \<open>
  Modelled from the spec: the FactoryLedger (the world's factory is missing): a signed
  balance, a non-negative inventory per product and the bankruptcy flag.
\<close>

record FactoryLedger =
  balance :: real
  inventory :: "int \<Rightarrow> nat"
  is_bankrupt :: bool

text \<open>
  Modelled from the spec: what the specification leaves to the configuration of the
  executor (the world's constructor is missing): how many units of a contract the two
  sides can honour apart from the seller's stock (the buyer's funds, missing external
  supply), the storage and delivery charge of a ledger at the end of the step, and the
  bankruptcy limit.
\<close>

record executor =
  honoured :: "FactoryLedger list \<Rightarrow> trade \<Rightarrow> nat"
  step_charge :: "FactoryLedger \<Rightarrow> real"
  bankruptcy_limit :: real

text \<open>
  Modelled from the spec: an entry of the ExecutionReport (the world's breach records are
  missing): the contract and the quantity delivered; the deficit of a breach is the
  contract's quantity less the delivered one.
\<close>

record delivery =
  trade_of :: trade
  delivered :: nat

text \<open>
  Modelled from the spec: who may trade (the world's bankruptcy handling is missing). A
  contract of a bankrupt or unknown party is dropped; the external party always trades.
\<close>

definition can_trade :: "FactoryLedger list \<Rightarrow> party \<Rightarrow> bool" where
  "can_trade ledgers p =
     (case p of
        External \<Rightarrow> True
      | Agent a \<Rightarrow> a < length ledgers \<and> \<not> is_bankrupt (ledgers ! a))"

text \<open>
  Modelled from the spec: the quantity available to the seller (the world's inventory check
  is missing): the stock of the traded product, the whole quantity for the external party.
\<close>

definition in_stock :: "FactoryLedger list \<Rightarrow> trade \<Rightarrow> nat" where
  "in_stock ledgers c =
     (case seller c of
        External \<Rightarrow> nat (quantity c)
      | Agent a \<Rightarrow> inventory (ledgers ! a) (product c))"

text \<open>
  Modelled from the spec: the delivered quantity (the world's breach processing is
  missing): the contract's quantity, or the available quantity when a side falls short.
\<close>

definition delivered_quantity :: "executor \<Rightarrow> FactoryLedger list \<Rightarrow> trade \<Rightarrow> nat" where
  "delivered_quantity ex ledgers c =
     min (nat (quantity c)) (min (in_stock ledgers c) (honoured ex ledgers c))"

text \<open>
  Modelled from the spec: the seller's side of the symmetric effects (the world's contract
  execution is missing): its inventory of the traded product decreases by the delivered
  quantity and its balance increases by the payment.
\<close>

definition ship ::
  "party \<Rightarrow> int \<Rightarrow> nat \<Rightarrow> real \<Rightarrow> FactoryLedger list \<Rightarrow> FactoryLedger list" where
  "ship p g d pay ledgers =
     (case p of
        External \<Rightarrow> ledgers
      | Agent a \<Rightarrow>
          ledgers[a := (ledgers ! a)
            \<lparr>balance := balance (ledgers ! a) + pay,
             inventory := (inventory (ledgers ! a))(g := inventory (ledgers ! a) g - d)\<rparr>])"

text \<open>
  Modelled from the spec: the buyer's side of the symmetric effects (the world's contract
  execution is missing): its inventory increases by the delivered quantity and its balance
  decreases by the same payment.
\<close>

definition receive ::
  "party \<Rightarrow> int \<Rightarrow> nat \<Rightarrow> real \<Rightarrow> FactoryLedger list \<Rightarrow> FactoryLedger list" where
  "receive p g d pay ledgers =
     (case p of
        External \<Rightarrow> ledgers
      | Agent a \<Rightarrow>
          ledgers[a := (ledgers ! a)
            \<lparr>balance := balance (ledgers ! a) - pay,
             inventory := (inventory (ledgers ! a))(g := inventory (ledgers ! a) g + d)\<rparr>])"

text \<open>
  Modelled from the spec: the execution of one contract (the world's contract execution is
  missing). A void contract (negative signing step) and a contract of a party that cannot
  trade are dropped; otherwise the delivered quantity moves from the seller to the buyer,
  the payment \<open>price * delivered\<close> moves the other way, and the report gets an entry.
\<close>

definition execute ::
  "executor \<Rightarrow> FactoryLedger list \<times> delivery list \<Rightarrow> trade
     \<Rightarrow> FactoryLedger list \<times> delivery list" where
  "execute ex st c =
     (let ledgers = fst st; report = snd st
      in if 0 \<le> signed_at c \<and> can_trade ledgers (seller c) \<and> can_trade ledgers (buyer c)
         then
           let d = delivered_quantity ex ledgers c;
               pay = real_of_int (unit_price c) * real d
           in (receive (buyer c) (product c) d pay (ship (seller c) (product c) d pay ledgers),
               report @ [\<lparr>trade_of = c, delivered = d\<rparr>])
         else st)"

text \<open>
  Modelled from the spec: the end of the step for one ledger (the world's step is
  missing): the storage and delivery charge is deducted, then the ledger is bankrupt if
  its balance is at or below the limit; the flag, once set, stays set.
\<close>

definition settle :: "executor \<Rightarrow> FactoryLedger \<Rightarrow> FactoryLedger" where
  "settle ex l =
     (let b = balance l - step_charge ex l
      in l\<lparr>balance := b, is_bankrupt := is_bankrupt l \<or> b \<le> bankruptcy_limit ex\<rparr>)"

text \<open>
  Modelled from the spec: \<^verbatim>\<open>ContractExecutor.apply\<close> (the world's step is missing): the
  contracts of the step are executed one after the other in the order given, then every
  ledger is settled. The result is the new ledgers and the report.
\<close>

definition apply_contracts ::
  "executor \<Rightarrow> trade list \<Rightarrow> FactoryLedger list \<Rightarrow> FactoryLedger list \<times> delivery list" where
  "apply_contracts ex contracts ledgers =
     (let st = foldl (execute ex) (ledgers, []) contracts
      in (map (settle ex) (fst st), snd st))"

text \<open>
  Modelled from the spec: the quantities that goods conservation compares (the world's
  statistics are missing): the inventory of a product summed over all agents, and the
  volume of the product that came from, and went to, the external party in a report.
\<close>

definition total_inventory :: "FactoryLedger list \<Rightarrow> int \<Rightarrow> int" where
  "total_inventory ledgers g = sum_list (map (\<lambda>l. int (inventory l g)) ledgers)"

definition external_supply :: "delivery list \<Rightarrow> int \<Rightarrow> int" where
  "external_supply report g =
     sum_list (map (\<lambda>r. int (delivered r))
       (filter (\<lambda>r. product (trade_of r) = g \<and> seller (trade_of r) = External
                     \<and> buyer (trade_of r) \<noteq> External) report))"

definition external_sale :: "delivery list \<Rightarrow> int \<Rightarrow> int" where
  "external_sale report g =
     sum_list (map (\<lambda>r. int (delivered r))
       (filter (\<lambda>r. product (trade_of r) = g \<and> buyer (trade_of r) = External
                     \<and> seller (trade_of r) \<noteq> External) report))"

text \<open>The goods of a product that are accounted for by the agents alone.\<close>

definition goods_account :: "FactoryLedger list \<times> delivery list \<Rightarrow> int \<Rightarrow> int" where
  "goods_account st g =
     total_inventory (fst st) g - external_supply (snd st) g + external_sale (snd st) g"

section \<open>Concrete inputs\<close>

text \<open>
  An agent of the first production level (input product 0, output product 1) with a
  utility function of unit cost rates, and a signed contract on product 2, which is
  neither its input nor its output product.
\<close>

definition level0_agent :: one_shot_agent where
  "level0_agent =
     \<lparr>awi = \<lparr>my_input_product = 0, my_output_product = 1, n_products = 3,
             current_exogenous_input_quantity = 10, current_exogenous_input_price = 100,
             current_exogenous_output_quantity = 0, current_exogenous_output_price = 0,
             profile_cost = 2, current_storage_cost = 5, current_delivery_penalty = 5\<rparr>\<rparr>"

definition level0_ufun :: OneShotUFun where
  "level0_ufun =
     \<lparr>self_owner = level0_agent, self_pin = 0, self_pout = 0, self_qin = 0, self_qout = 0,
      self_cost = 1, self_storage_cost = 1, self_delivery_penalty = 1\<rparr>"

definition stray_contract :: contract where
  "stray_contract = \<lparr>signed_at = 0, product = 2, quantity = 3, unit_price = 4\<rparr>"

text \<open>An adapter that has joined no world yet, and one that has.\<close>

definition unjoined_adapter :: DefaultOneShotAdapter where
  "unjoined_adapter = \<lparr>adapter_awi = None\<rparr>"

definition joined_adapter :: DefaultOneShotAdapter where
  "joined_adapter = \<lparr>adapter_awi = Some (awi level0_agent)\<rparr>"

text \<open>
  A step of two agents without stock: the external party supplies 5 units of product 0 to
  agent 0, agent 0 sells 3 of them to agent 1, and agent 1 owes 4 units to the external
  party, of which it holds 3.
\<close>

definition plain_executor :: executor where
  "plain_executor =
     \<lparr>honoured = (\<lambda>ledgers c. nat (quantity c)), step_charge = (\<lambda>l. 0),
      bankruptcy_limit = 0\<rparr>"

definition fresh_ledger :: FactoryLedger where
  "fresh_ledger = \<lparr>balance = 1000, inventory = (\<lambda>g. 0), is_bankrupt = False\<rparr>"

definition step_trades :: "trade list" where
  "step_trades =
     [\<lparr>signed_at = 0, product = 0, quantity = 5, unit_price = 10,
       seller = External, buyer = Agent 0\<rparr>,
      \<lparr>signed_at = 0, product = 0, quantity = 3, unit_price = 12,
       seller = Agent 0, buyer = Agent 1\<rparr>,
      \<lparr>signed_at = 0, product = 0, quantity = 4, unit_price = 15,
       seller = Agent 1, buyer = External\<rparr>]"

section \<open>Properties of the class methods\<close>

text \<open>
  C1. For all integer quantities, prices and cost rates, \<open>eval\<close> returns
  \<open>pin - pout - production_cost * min qin qout - storage_cost * max 0 (qin - qout)
  - delivery_penalty * max 0 (qout - qin)\<close>; at \<open>qin = 10\<close>, \<open>qout = 10\<close>,
  \<open>production_cost = 2\<close>, \<open>storage_cost = 5\<close>, \<open>delivery_penalty = 5\<close>, \<open>pin = 100\<close>,
  \<open>pout = 300\<close> it returns \<open>-220\<close>.
\<close>

theorem eval_profit_formula:
  "eval qin qout pin pout production_cost storage_cost delivery_penalty =
     pin - pout - production_cost * min qin qout
       - storage_cost * max 0 (qin - qout)
       - delivery_penalty * max 0 (qout - qin)
   \<and> eval 10 10 100 300 2 5 5 = - 220"
  by (simp add: eval_def)

text \<open>
  C7. With the quantities and the cost rates fixed, \<open>eval\<close> does not decrease when \<open>pin\<close>
  grows and does not increase when \<open>pout\<close> grows.
\<close>

theorem eval_monotone:
  "(pin \<le> pin' \<longrightarrow>
      eval qin qout pin pout production_cost storage_cost delivery_penalty
        \<le> eval qin qout pin' pout production_cost storage_cost delivery_penalty)
   \<and> (pout \<le> pout' \<longrightarrow>
      eval qin qout pin pout' production_cost storage_cost delivery_penalty
        \<le> eval qin qout pin pout production_cost storage_cost delivery_penalty)"
  by (simp add: eval_def)

theorem eval_monotone_witness:
  "(100::int) \<le> 150 \<and> eval 4 10 100 300 2 5 5 \<le> eval 4 10 150 300 2 5 5
   \<and> (300::int) \<le> 400 \<and> eval 4 10 100 400 2 5 5 \<le> eval 4 10 100 300 2 5 5"
  using eval_monotone [of 100 150 4 10 300 2 5 5 400]
  by simp

lemma float_overflow_above_one: "1 < float_overflow"
  by (simp add: float_overflow_def)

lemma truediv_in_range:
  "b \<noteq> 0 \<Longrightarrow> \<bar>of_int a / of_int b\<bar> < float_overflow \<Longrightarrow>
   truediv a b = Inr (of_int a / of_int b)"
  by (simp add: truediv_def)

lemma truediv_nonzero_divisor: "b \<noteq> 0 \<Longrightarrow> truediv a b \<noteq> Inl ZeroDivisionError"
  by (simp add: truediv_def)

lemma truediv_error:
  "b \<noteq> 0 \<Longrightarrow> truediv a b = Inl e \<Longrightarrow>
   e = OverflowError \<and> float_overflow \<le> \<bar>of_int a / of_int b\<bar>"
  by (auto simp add: truediv_def split: if_splits)

text \<open>The mismatch of two non-negative quantities is at most the larger of them.\<close>

lemma mismatch_quotient_bounds:
  assumes "0 \<le> qin" and "0 \<le> qout" and "\<not> max qin qout < 1"
  shows "(0::rat) \<le> of_int \<bar>qin - qout\<bar> / of_int (max qin qout)"
    and "(of_int \<bar>qin - qout\<bar> :: rat) / of_int (max qin qout) \<le> 1"
proof -
  from assms(3) have positive: "0 < max qin qout" by linarith
  then have denominator: "(0::rat) < of_int (max qin qout)"
    by (simp only: of_int_0_less_iff)
  then show "(0::rat) \<le> of_int \<bar>qin - qout\<bar> / of_int (max qin qout)"
    by (simp add: divide_nonneg_pos)
  have "\<bar>qin - qout\<bar> \<le> max qin qout"
    using assms(1,2) by simp
  then have "(of_int \<bar>qin - qout\<bar> :: rat) \<le> of_int (max qin qout)"
    by (simp only: of_int_le_iff)
  with denominator show "(of_int \<bar>qin - qout\<bar> :: rat) / of_int (max qin qout) \<le> 1"
    by (simp add: divide_le_eq_1)
qed

lemma breach_level_nonnegative_arguments:
  assumes "0 \<le> qin" and "0 \<le> qout" and "\<not> max qin qout < 1"
  shows "breach_level qin qout = Inr (of_int \<bar>qin - qout\<bar> / of_int (max qin qout))"
proof -
  let ?q = "(of_int \<bar>qin - qout\<bar> :: rat) / of_int (max qin qout)"
  have "0 \<le> ?q" and "?q \<le> 1"
    using assms by (rule mismatch_quotient_bounds)+
  then have "\<bar>?q\<bar> < float_overflow"
    using float_overflow_above_one by linarith
  moreover have "max qin qout \<noteq> 0"
    using assms(3) by linarith
  ultimately have "truediv \<bar>qin - qout\<bar> (max qin qout) = Inr ?q"
    by (intro truediv_in_range)
  with assms(3) show ?thesis
    by (simp only: breach_level_def if_False)
qed

text \<open>A quotient of the size of \<open>10 ^ 309\<close> is beyond every double.\<close>

lemma truediv_overflow: "truediv (10 ^ 309 + 1) 1 = Inl OverflowError"
  by (simp add: truediv_def float_overflow_def)



text \<open>
  C10, as the code has it. \<open>breach_level\<close> never divides by zero: for every pair of
  integers, zero and negative ones included, it returns \<open>0\<close> without dividing when
  \<open>max qin qout < 1\<close>, and it divides only by \<open>max qin qout \<ge> 1\<close>. It returns a value for
  every pair of non-negative integers. The only error it can raise is the
  \<^verbatim>\<open>OverflowError\<close> of a quotient beyond the range of floats, and only when an argument
  is negative.
\<close>

theorem breach_level_never_divides_by_zero:
  "breach_level qin qout \<noteq> Inl ZeroDivisionError
   \<and> (max qin qout < 1 \<longrightarrow> breach_level qin qout = Inr 0)
   \<and> (\<not> max qin qout < 1 \<longrightarrow>
        1 \<le> max qin qout
        \<and> breach_level qin qout = truediv \<bar>qin - qout\<bar> (max qin qout)
        \<and> truediv \<bar>qin - qout\<bar> (max qin qout) \<noteq> Inl ZeroDivisionError)
   \<and> (0 \<le> qin \<and> 0 \<le> qout \<longrightarrow> (\<exists>r. breach_level qin qout = Inr r))
   \<and> (breach_level qin qout = Inl e \<longrightarrow> e = OverflowError \<and> (qin < 0 \<or> qout < 0))"
proof -
  have below: "breach_level qin qout = Inr 0" if "max qin qout < 1"
    using that by (simp only: breach_level_def if_True)
  have above: "1 \<le> max qin qout
      \<and> breach_level qin qout = truediv \<bar>qin - qout\<bar> (max qin qout)
      \<and> truediv \<bar>qin - qout\<bar> (max qin qout) \<noteq> Inl ZeroDivisionError"
    if "\<not> max qin qout < 1"
  proof (intro conjI)
    from that show "1 \<le> max qin qout" by linarith
    from that show "breach_level qin qout = truediv \<bar>qin - qout\<bar> (max qin qout)"
      by (simp only: breach_level_def if_False)
    from that have "max qin qout \<noteq> 0" by linarith
    then show "truediv \<bar>qin - qout\<bar> (max qin qout) \<noteq> Inl ZeroDivisionError"
      by (rule truediv_nonzero_divisor)
  qed
  have no_zero: "breach_level qin qout \<noteq> Inl ZeroDivisionError"
  proof (cases "max qin qout < 1")
    case True
    then show ?thesis by (simp add: below)
  next
    case False
    then show ?thesis using above by simp
  qed
  have returns: "\<exists>r. breach_level qin qout = Inr r" if "0 \<le> qin \<and> 0 \<le> qout"
  proof (cases "max qin qout < 1")
    case True
    then show ?thesis by (simp add: below)
  next
    case False
    with that show ?thesis by (simp add: breach_level_nonnegative_arguments)
  qed
  have raises: "e = OverflowError \<and> (qin < 0 \<or> qout < 0)" if "breach_level qin qout = Inl e"
  proof
    have large: "\<not> max qin qout < 1"
      using that below by auto
    then have "max qin qout \<noteq> 0" by linarith
    moreover have "truediv \<bar>qin - qout\<bar> (max qin qout) = Inl e"
      using that above [OF large] by simp
    ultimately show "e = OverflowError"
      by (auto dest: truediv_error)
    show "qin < 0 \<or> qout < 0"
    proof (rule ccontr)
      assume "\<not> (qin < 0 \<or> qout < 0)"
      then have "0 \<le> qin \<and> 0 \<le> qout" by simp
      then obtain r where "breach_level qin qout = Inr r" using returns by blast
      with that show False by simp
    qed
  qed
  show ?thesis
    using no_zero below above returns raises by blast
qed

theorem breach_level_never_divides_by_zero_witness:
  "max (- 3) (0::int) < 1 \<and> breach_level (- 3) 0 = Inr 0
   \<and> \<not> max (- 3) (2::int) < 1 \<and> 1 \<le> max (- 3) (2::int)
   \<and> breach_level (- 3) 2 = truediv \<bar>- 3 - 2\<bar> (max (- 3) 2)
   \<and> (0::int) \<le> 4 \<and> (0::int) \<le> 10 \<and> (\<exists>r. breach_level 4 10 = Inr r)
   \<and> breach_level (- (10 ^ 309)) 1 = Inl OverflowError \<and> - (10 ^ 309) < (0::int)"
proof -
  have small: "max (- 3) (0::int) < 1" by simp
  have large: "\<not> max (- 3) (2::int) < 1" by simp
  have nonnegative: "(0::int) \<le> 4 \<and> (0::int) \<le> 10" by simp
  have beyond: "breach_level (- (10 ^ 309)) 1 = Inl OverflowError"
    using truediv_overflow by (simp add: breach_level_def)
  have negative: "- (10 ^ 309) < (0::int)" by simp
  from small breach_level_never_divides_by_zero [of "- 3" 0]
  have first: "breach_level (- 3) 0 = Inr 0" by blast
  from large breach_level_never_divides_by_zero [of "- 3" 2]
  have second: "1 \<le> max (- 3) (2::int)
      \<and> breach_level (- 3) 2 = truediv \<bar>- 3 - 2\<bar> (max (- 3) 2)" by blast
  from nonnegative breach_level_never_divides_by_zero [of 4 10]
  have third: "\<exists>r. breach_level 4 10 = Inr r" by blast
  from beyond breach_level_never_divides_by_zero [of "- (10 ^ 309)" 1 OverflowError]
  have fourth: "- (10 ^ 309) < (0::int) \<or> (1::int) < 0" by blast
  show ?thesis
    using small first large second nonnegative third beyond negative by blast
qed

text \<open>
  C10, as stated, fails: \<open>breach_level\<close> is not total on negative arguments. At
  \<open>qin = - (10 ^ 309)\<close>, \<open>qout = 1\<close> the divisor is \<open>1\<close> and the quotient
  \<open>10 ^ 309 + 1\<close> is too large for a float, so the division raises \<^verbatim>\<open>OverflowError\<close>.
\<close>

theorem breach_level_total_counterexample:
  "breach_level (- (10 ^ 309)) 1 = Inl OverflowError"
  using truediv_overflow by (simp add: breach_level_def)

text \<open>
  C3, as the code has it. For all non-negative integers, \<open>breach_level qin qout\<close> lies in
  the closed interval from 0 to 1: it is at least 0 and at most 1. The value 1 is reached,
  for example at \<open>qin = 0\<close>, \<open>qout = 5\<close>, so the interval is not half-open.
\<close>

theorem breach_level_in_closed_unit_interval:
  assumes "0 \<le> qin" and "0 \<le> qout"
  shows "\<exists>r. breach_level qin qout = Inr r \<and> 0 \<le> r \<and> r \<le> 1"
proof (cases "max qin qout < 1")
  case True
  then show ?thesis by (simp add: breach_level_def)
next
  case False
  let ?q = "(of_int \<bar>qin - qout\<bar> :: rat) / of_int (max qin qout)"
  have "breach_level qin qout = Inr ?q"
    using assms False by (rule breach_level_nonnegative_arguments)
  moreover have "0 \<le> ?q" and "?q \<le> 1"
    using assms False by (rule mismatch_quotient_bounds)+
  ultimately show ?thesis by blast
qed

theorem breach_level_in_closed_unit_interval_witness:
  "(0::int) \<le> 4 \<and> (0::int) \<le> 10
   \<and> (\<exists>r. breach_level 4 10 = Inr r \<and> 0 \<le> r \<and> r \<le> 1)"
  using breach_level_in_closed_unit_interval [of 4 10]
  by simp

text \<open>
  C3, as stated, fails: at \<open>qin = 0\<close>, \<open>qout = 5\<close> the breach level is exactly 1, which is
  not strictly less than 1.
\<close>

theorem breach_level_half_open_counterexample:
  "breach_level 0 5 = Inr 1 \<and> \<not> (1::rat) < 1"
  using breach_level_nonnegative_arguments [of 0 5] by simp

text \<open>
  C6. \<open>is_breach qin qout\<close> holds exactly when \<open>qin \<noteq> qout\<close>; \<open>is_breach q q\<close> is false
  for every \<open>q\<close>, and so at \<open>q = 0\<close>.
\<close>

theorem is_breach_iff_different:
  "is_breach qin qout = (qin \<noteq> qout) \<and> \<not> is_breach q q \<and> \<not> is_breach 0 0"
  by (simp add: is_breach_def)

section \<open>Properties of a call on a list of contracts\<close>

lemma call_loop_self: "self (call_loop contracts s) = self s"
  by (induction contracts arbitrary: s) (simp_all add: call_body_def Let_def)

lemma call_loop_sums:
  "call_loop contracts s =
     s\<lparr>local_qin := local_qin s + total_quantity
          (filter (\<lambda>c. product c \<noteq> my_output_product (awi (self_owner (self s))))
             (signed contracts)),
       local_qout := local_qout s + total_quantity
          (filter (\<lambda>c. product c = my_output_product (awi (self_owner (self s))))
             (signed contracts)),
       local_pin := local_pin s + total_price
          (filter (\<lambda>c. product c \<noteq> my_output_product (awi (self_owner (self s))))
             (signed contracts)),
       local_pout := local_pout s + total_price
          (filter (\<lambda>c. product c = my_output_product (awi (self_owner (self s))))
             (signed contracts))\<rparr>"
proof (induction contracts arbitrary: s)
  case Nil
  show ?case
    by (simp add: signed_def total_quantity_def total_price_def)
next
  case (Cons c contracts)
  show ?case
    by (simp add: Cons.IH call_body_def Let_def signed_def total_quantity_def total_price_def)
qed

text \<open>
  C2, as the code has it. For every list of contracts, the call aggregates only over the
  contracts whose signing step is at least 0. Each of them whose product is the owner's
  output product adds its quantity to \<open>qout\<close> and its quantity times its unit price to
  \<open>pout\<close>; every other one of them, whatever its product, adds its quantity to \<open>qin\<close> and
  its quantity times its unit price to \<open>pin\<close>. The exogenous values stored at
  construction are added to these sums, and the result is \<open>eval\<close> of the totals with the
  stored cost rates.
\<close>

theorem call_aggregates_signed_contracts:
  "call u contracts =
     eval
       (self_qin u + total_quantity
          (filter (\<lambda>c. product c \<noteq> my_output_product (awi (self_owner u))) (signed contracts)))
       (self_qout u + total_quantity
          (filter (\<lambda>c. product c = my_output_product (awi (self_owner u))) (signed contracts)))
       (self_pin u + total_price
          (filter (\<lambda>c. product c \<noteq> my_output_product (awi (self_owner u))) (signed contracts)))
       (self_pout u + total_price
          (filter (\<lambda>c. product c = my_output_product (awi (self_owner u))) (signed contracts)))
       (self_cost u) (self_storage_cost u) (self_delivery_penalty u)"
  by (simp add: call_def call_run_def Let_def call_loop_sums)

text \<open>
  C2, as stated, fails: a signed contract on product 2 is counted as an input of an agent
  whose input product is 0 and whose output product is 1. The code returns
  \<open>12 - 0 - 1 * 0 - 1 * 3 - 1 * 0 = 9\<close>, the sums over the input and the output product
  give 0.
\<close>

theorem call_input_product_counterexample:
  "call level0_ufun [stray_contract] = 9 \<and> call_spec level0_ufun [stray_contract] = 0"
  by (simp add: call_def call_run_def call_spec_def call_body_def eval_def Let_def
      signed_def total_quantity_def total_price_def
      level0_ufun_def level0_agent_def stray_contract_def)

text \<open>
  The two readings agree on the contracts of a world in which an agent trades its input
  and its output product only, and the two differ.
\<close>

lemma call_meets_call_spec:
  assumes "my_input_product (awi (self_owner u)) \<noteq> my_output_product (awi (self_owner u))"
    and "\<forall>c \<in> set (signed contracts).
           product c = my_input_product (awi (self_owner u))
           \<or> product c = my_output_product (awi (self_owner u))"
  shows "call u contracts = call_spec u contracts"
proof -
  have "filter (\<lambda>c. product c \<noteq> my_output_product (awi (self_owner u))) (signed contracts)
      = filter (\<lambda>c. product c = my_input_product (awi (self_owner u))) (signed contracts)"
    using assms by (intro filter_cong) auto
  then show ?thesis
    by (simp add: call_def call_run_def call_loop_sums call_spec_def Let_def)
qed

text \<open>
  C8. A call leaves every stored field of the utility function as it was, and a second
  call on the same contracts, made on the object as the first call left it, returns the
  same value.
\<close>

theorem call_is_pure:
  "snd (call_run u contracts) = u
   \<and> fst (call_run (snd (call_run u contracts)) contracts) = fst (call_run u contracts)
   \<and> call (snd (call_run u contracts)) contracts = call u contracts"
  by (simp add: call_def call_run_def Let_def call_loop_self)

section \<open>Properties of the construction\<close>

text \<open>
  The constructor accepts the keywords it declares: with \<^verbatim>\<open>cost\<close> for the cost rate the
  object is built, and the parameters left out take their default.
\<close>

lemma OneShotUFun_init_declared_keywords:
  "OneShotUFun_init (Some ag) [(''qin'', a), (''pin'', b), (''cost'', c)] =
     Inr \<lparr>self_owner = ag, self_pin = b, self_pout = 0, self_qin = a, self_qout = 0,
          self_cost = c, self_storage_cost = 0, self_delivery_penalty = 0\<rparr>"
  by (simp add: OneShotUFun_init_def init_defaults_def bound_def)

text \<open>
  C9, as the code has it. Every call of \<open>make_ufun\<close> raises, so the adapter never
  constructs its utility function. With the adapter's \<^verbatim>\<open>awi\<close> set, the call raises
  \<^verbatim>\<open>TypeError\<close>: the keywords \<^verbatim>\<open>production_cost\<close>, \<^verbatim>\<open>input_agent\<close> and
  \<^verbatim>\<open>output_agent\<close> that it passes are not parameters of the constructor, whose cost rate
  is named \<^verbatim>\<open>cost\<close>. With \<^verbatim>\<open>awi\<close> still \<^verbatim>\<open>None\<close>, the evaluation of the arguments
  raises \<^verbatim>\<open>AttributeError\<close> before the constructor is called.
\<close>

theorem make_ufun_always_raises:
  "make_ufun adapter add_exogenous =
     Inl (case adapter_awi adapter of None \<Rightarrow> AttributeError | Some w \<Rightarrow> TypeError)
   \<and> ''production_cost'' \<notin> set init_params
   \<and> ''input_agent'' \<notin> set init_params
   \<and> ''output_agent'' \<notin> set init_params
   \<and> ''cost'' \<in> set init_params"
proof (cases "adapter_awi adapter")
  case None
  then show ?thesis
    by (simp add: make_ufun_def awi_attribute_def init_params_def init_defaults_def)
next
  case (Some w)
  then show ?thesis
    by (simp add: make_ufun_def awi_attribute_def as_owner_def OneShotUFun_init_def
        init_params_def init_defaults_def)
qed

text \<open>
  C9, as stated, fails: an adapter whose \<^verbatim>\<open>awi\<close> is \<^verbatim>\<open>None\<close> raises
  \<^verbatim>\<open>AttributeError\<close> at \<^verbatim>\<open>self.awi.profile.cost\<close>, not \<^verbatim>\<open>TypeError\<close>, whether
  \<^verbatim>\<open>add_exogenous\<close> holds or not.
\<close>

theorem make_ufun_TypeError_counterexample:
  "make_ufun unjoined_adapter False = Inl AttributeError
   \<and> make_ufun unjoined_adapter True = Inl AttributeError
   \<and> AttributeError \<noteq> TypeError"
  by (simp add: make_ufun_def awi_attribute_def unjoined_adapter_def)

text \<open>An adapter that has joined a world gets as far as the constructor.\<close>

lemma make_ufun_joined: "make_ufun joined_adapter True = Inl TypeError"
  by (simp add: make_ufun_def awi_attribute_def as_owner_def OneShotUFun_init_def
      init_defaults_def joined_adapter_def)

section \<open>Conservation of goods\<close>

lemma total_inventory_update:
  "a < length ledgers \<Longrightarrow>
   total_inventory (ledgers[a := l]) g =
     total_inventory ledgers g - int (inventory (ledgers ! a) g) + int (inventory l g)"
proof (induction ledgers arbitrary: a)
  case Nil
  then show ?case by simp
next
  case (Cons x ledgers)
  then show ?case
    by (cases a) (simp_all add: total_inventory_def)
qed

lemma ship_total:
  assumes "can_trade ledgers p"
    and "\<And>a. p = Agent a \<Longrightarrow> d \<le> inventory (ledgers ! a) h"
  shows "total_inventory (ship p h d pay ledgers) g =
           total_inventory ledgers g - (if p \<noteq> External \<and> h = g then int d else 0)"
proof (cases p)
  case External
  then show ?thesis by (simp add: ship_def)
next
  case (Agent a)
  with assms have "a < length ledgers" and "d \<le> inventory (ledgers ! a) h"
    by (simp_all add: can_trade_def)
  with Agent show ?thesis
    by (auto simp add: ship_def total_inventory_update)
qed

lemma length_ship: "length (ship p h d pay ledgers) = length ledgers"
  by (cases p) (simp_all add: ship_def)

lemma receive_total:
  assumes "\<And>a. p = Agent a \<Longrightarrow> a < length ledgers"
  shows "total_inventory (receive p h d pay ledgers) g =
           total_inventory ledgers g + (if p \<noteq> External \<and> h = g then int d else 0)"
proof (cases p)
  case External
  then show ?thesis by (simp add: receive_def)
next
  case (Agent a)
  with assms have "a < length ledgers" by simp
  with Agent show ?thesis
    by (simp add: receive_def total_inventory_update)
qed

lemma external_supply_snoc:
  "external_supply (report @ [r]) g =
     external_supply report g +
       (if product (trade_of r) = g \<and> seller (trade_of r) = External
           \<and> buyer (trade_of r) \<noteq> External then int (delivered r) else 0)"
  by (simp add: external_supply_def)

lemma external_sale_snoc:
  "external_sale (report @ [r]) g =
     external_sale report g +
       (if product (trade_of r) = g \<and> buyer (trade_of r) = External
           \<and> seller (trade_of r) \<noteq> External then int (delivered r) else 0)"
  by (simp add: external_sale_def)

lemma delivered_in_stock:
  "seller c = Agent a \<Longrightarrow>
   delivered_quantity ex ledgers c \<le> inventory (ledgers ! a) (product c)"
  by (simp add: delivered_quantity_def in_stock_def)

text \<open>Executing one contract leaves the goods account of every product as it was.\<close>

lemma execute_goods_account: "goods_account (execute ex st c) g = goods_account st g"
proof (cases "0 \<le> signed_at c \<and> can_trade (fst st) (seller c) \<and> can_trade (fst st) (buyer c)")
  case False
  then show ?thesis by (auto simp add: execute_def Let_def)
next
  case True
  define d where "d = delivered_quantity ex (fst st) c"
  define pay where "pay = real_of_int (unit_price c) * real d"
  define shipped where "shipped = ship (seller c) (product c) d pay (fst st)"
  have s: "total_inventory shipped g =
      total_inventory (fst st) g - (if seller c \<noteq> External \<and> product c = g then int d else 0)"
    unfolding shipped_def using True
    by (intro ship_total) (simp_all add: d_def delivered_in_stock)
  have "\<And>a. buyer c = Agent a \<Longrightarrow> a < length shipped"
    using True by (simp add: shipped_def length_ship can_trade_def)
  then have r: "total_inventory (receive (buyer c) (product c) d pay shipped) g =
      total_inventory shipped g + (if buyer c \<noteq> External \<and> product c = g then int d else 0)"
    by (rule receive_total)
  have e: "execute ex st c =
      (receive (buyer c) (product c) d pay shipped, snd st @ [\<lparr>trade_of = c, delivered = d\<rparr>])"
    using True by (simp add: execute_def Let_def d_def pay_def shipped_def)
  show ?thesis
    unfolding e goods_account_def
    by (simp add: r s external_supply_snoc external_sale_snoc)
qed

lemma foldl_execute_goods_account:
  "goods_account (foldl (execute ex) st contracts) g = goods_account st g"
  by (induction contracts arbitrary: st) (simp_all add: execute_goods_account)

lemma settle_inventory:
  "total_inventory (map (settle ex) ledgers) g = total_inventory ledgers g"
  by (simp add: total_inventory_def settle_def Let_def comp_def)

text \<open>
  C4. Goods conservation: in one step, the inventory of a product summed over all agents
  changes by the volume that the external party supplied less the volume that it bought;
  the execution of contracts creates and destroys no goods.
\<close>

theorem goods_conservation:
  "total_inventory (fst (apply_contracts ex contracts ledgers)) g - total_inventory ledgers g =
     external_supply (snd (apply_contracts ex contracts ledgers)) g
       - external_sale (snd (apply_contracts ex contracts ledgers)) g"
proof -
  have "goods_account (foldl (execute ex) (ledgers, []) contracts) g
      = goods_account (ledgers, []) g"
    by (rule foldl_execute_goods_account)
  then show ?thesis
    by (simp add: apply_contracts_def Let_def settle_inventory goods_account_def
        external_supply_def external_sale_def)
qed

text \<open>
  The step of two agents: 5 units come in, agent 1 delivers only the 3 units it holds, and
  2 units stay with agent 0.
\<close>

theorem goods_conservation_witness:
  "total_inventory [fresh_ledger, fresh_ledger] 0 = 0
   \<and> external_supply
        (snd (apply_contracts plain_executor step_trades [fresh_ledger, fresh_ledger])) 0 = 5
   \<and> external_sale
        (snd (apply_contracts plain_executor step_trades [fresh_ledger, fresh_ledger])) 0 = 3
   \<and> total_inventory
        (fst (apply_contracts plain_executor step_trades [fresh_ledger, fresh_ledger])) 0 = 2"
proof -
  have before: "total_inventory [fresh_ledger, fresh_ledger] 0 = 0"
    by (simp add: total_inventory_def fresh_ledger_def)
  have volumes:
    "external_supply
        (snd (apply_contracts plain_executor step_trades [fresh_ledger, fresh_ledger])) 0 = 5
     \<and> external_sale
        (snd (apply_contracts plain_executor step_trades [fresh_ledger, fresh_ledger])) 0 = 3"
    by (simp add: apply_contracts_def execute_def Let_def can_trade_def delivered_quantity_def
        in_stock_def ship_def receive_def plain_executor_def step_trades_def fresh_ledger_def
        external_supply_def external_sale_def)
  show ?thesis
    using goods_conservation [of plain_executor step_trades "[fresh_ledger, fresh_ledger]" 0]
      before volumes
    by simp
qed

end
